theory Spec2Isabelle
  imports Complex_Main
begin

section \<open>Single-qubit variational eigensolver: the estimation core\<close>

text \<open>
  The development embeds the functions of the notebook
  ``Variational eigensolver for toy Hamiltonian on a single qubit'':
  \<^verbatim>\<open>exp_from_counts\<close>, \<^verbatim>\<open>get_var_form\<close>, \<^verbatim>\<open>ham_exp_val\<close> and the exact
  check built from \<^verbatim>\<open>ham_matrix\<close>.

  Python integers are \<open>int\<close>. Python floats and numpy doubles are idealised as
  \<open>real\<close>: rounding is not modelled, the exceptional results of a numpy division
  by zero (nan, inf) are.
\<close>

subsection \<open>Errors\<close>

text \<open>The exceptions the modelled code can raise. \<open>KeyError\<close> carries the missing key.\<close>

datatype error = KeyError string | IndexError | ZeroDivisionError

text \<open>Sequencing of fallible steps: the first exception ends the evaluation.\<close>

definition bind_err :: "error + 'a \<Rightarrow> ('a \<Rightarrow> error + 'b) \<Rightarrow> error + 'b" where
  "bind_err r f = (case r of Inl e \<Rightarrow> Inl e | Inr v \<Rightarrow> f v)"

subsection \<open>Outcome counts and the expectation estimator\<close>

text \<open>
  \<^verbatim>\<open>get_counts()\<close> returns a dict from the outcome labels \<^verbatim>\<open>'0'\<close>, \<^verbatim>\<open>'1'\<close> to the
  number of shots with that outcome; an outcome that never occurred has no key.
\<close>

type_synonym counts = "string \<rightharpoonup> int"

text \<open>The notebook's module-level shot budget.\<close>

definition NUM_SHOTS :: int where
  "NUM_SHOTS = 10000"

text \<open>\<^verbatim>\<open>k in counts.keys()\<close>\<close>

definition has_key :: "counts \<Rightarrow> string \<Rightarrow> bool" where
  "has_key cnts k = (cnts k \<noteq> None)"

text \<open>\<^verbatim>\<open>counts[k]\<close>: raises KeyError when the key is absent.\<close>

definition getitem :: "counts \<Rightarrow> string \<Rightarrow> error + int" where
  "getitem cnts k = (case cnts k of None \<Rightarrow> Inl (KeyError k) | Some n \<Rightarrow> Inr n)"

text \<open>Python's \<^verbatim>\<open>/\<close> on two ints: a float, or ZeroDivisionError.\<close>

definition true_div :: "int \<Rightarrow> int \<Rightarrow> error + real" where
  "true_div m n = (if n = 0 then Inl ZeroDivisionError else Inr (real_of_int m / real_of_int n))"

text \<open>
  \<^verbatim>\<open>
  def exp_from_counts(counts):
      if '0' not in counts.keys():
          exp_val = -1* counts['1'] / NUM_SHOTS
      elif '1' not in counts.keys():
          exp_val = counts['0'] / NUM_SHOTS
      else:
          exp_val = (counts['0'] - counts['1']) / NUM_SHOTS
      return exp_val
  \<close>
  The global \<^verbatim>\<open>NUM_SHOTS\<close> the function reads is its first argument here.
\<close>

definition exp_from_counts :: "int \<Rightarrow> counts \<Rightarrow> error + real" where
  "exp_from_counts num_shots cnts =
     (if \<not> has_key cnts ''0'' then
        bind_err (getitem cnts ''1'') (\<lambda>c1. true_div (-1 * c1) num_shots)
      else if \<not> has_key cnts ''1'' then
        bind_err (getitem cnts ''0'') (\<lambda>c0. true_div c0 num_shots)
      else
        bind_err (getitem cnts ''0'') (\<lambda>c0.
        bind_err (getitem cnts ''1'') (\<lambda>c1.
          true_div (c0 - c1) num_shots)))"

text \<open>
  The count of an outcome as the specification reads a sparse mapping: an absent
  key is a count of zero.
\<close>

definition count_of :: "counts \<Rightarrow> string \<Rightarrow> int" where
  "count_of cnts k = (case cnts k of None \<Rightarrow> 0 | Some n \<Rightarrow> n)"

text \<open>
  OutcomeCounts of the data model: non-negative counts of the two outcomes that sum
  to the shot budget.
\<close>

definition outcome_counts :: "int \<Rightarrow> counts \<Rightarrow> bool" where
  "outcome_counts shots cnts =
     (0 \<le> count_of cnts ''0'' \<and> 0 \<le> count_of cnts ''1'' \<and>
      count_of cnts ''0'' + count_of cnts ''1'' = shots)"

subsection \<open>Circuits\<close>

text \<open>
  A one-qubit \<^verbatim>\<open>QuantumCircuit\<close> is the list of the instructions appended to it, in
  the order of the calls. Only the gates the notebook uses are modelled.
\<close>

datatype gate = RYGate real | RZGate real | HGate | ZGate | SGate

datatype instruction = Apply gate | Measure

type_synonym circuit = "instruction list"

text \<open>\<^verbatim>\<open>params[i]\<close> for an index \<open>i \<ge> 0\<close>: raises IndexError when out of range.\<close>

definition param_at :: "real list \<Rightarrow> nat \<Rightarrow> error + real" where
  "param_at params i = (if i < length params then Inr (params ! i) else Inl IndexError)"

text \<open>
  \<^verbatim>\<open>
  def get_var_form(params,meas_axis='z'):
      # variational form = Ry(theta)Rz(phi)
      qr = QuantumRegister(1, name="q")
      cr = ClassicalRegister(1, name='c')
      qc = QuantumCircuit(qr, cr)
      qc.ry(params[0], qr[0])
      if len(params)>1:
          qc.rz(params[1], qr[0])
      if meas_axis == 'x':
          qc.h(0)
      elif meas_axis == 'y':
          qc.z(0)
          qc.s(0)
          qc.h(0)
      qc.measure(qr, cr[0])
      return qc
  \<close>
\<close>

definition get_var_form :: "real list \<Rightarrow> string \<Rightarrow> error + circuit" where
  "get_var_form params meas_axis =
     bind_err (param_at params 0) (\<lambda>p0.
     let qc = [Apply (RYGate p0)] in
     bind_err (if length params > 1
               then bind_err (param_at params 1) (\<lambda>p1. Inr (qc @ [Apply (RZGate p1)]))
               else Inr qc) (\<lambda>qc.
     let qc = (if meas_axis = ''x'' then qc @ [Apply HGate]
               else if meas_axis = ''y'' then qc @ [Apply ZGate, Apply SGate, Apply HGate]
               else qc)
     in Inr (qc @ [Measure])))"

subsection \<open>What the gates do\<close>

text \<open>
  The library's meaning of a circuit: a state is the pair of the amplitudes of the
  outcomes 0 and 1, a gate is a 2 by 2 complex matrix given by its two rows. The
  matrices are the ones the library documents: \<open>RY(t) = exp (- \<i> t Y / 2)\<close>,
  \<open>RZ(l) = exp (- \<i> l Z / 2)\<close>, Hadamard, Pauli Z and the phase gate S.
\<close>

type_synonym qstate = "complex \<times> complex"

type_synonym matrix2 = "(complex \<times> complex) \<times> (complex \<times> complex)"

fun gate_matrix :: "gate \<Rightarrow> matrix2" where
  "gate_matrix (RYGate t) =
     ((of_real (cos (t / 2)), of_real (- sin (t / 2))),
      (of_real (sin (t / 2)), of_real (cos (t / 2))))"
| "gate_matrix (RZGate l) = ((cis (- l / 2), 0), (0, cis (l / 2)))"
| "gate_matrix HGate =
     ((of_real (1 / sqrt 2), of_real (1 / sqrt 2)),
      (of_real (1 / sqrt 2), of_real (- 1 / sqrt 2)))"
| "gate_matrix ZGate = ((1, 0), (0, - 1))"
| "gate_matrix SGate = ((1, 0), (0, \<i>))"

fun mat_vec :: "matrix2 \<Rightarrow> qstate \<Rightarrow> qstate" where
  "mat_vec ((m00, m01), (m10, m11)) (v0, v1) = (m00 * v0 + m01 * v1, m10 * v0 + m11 * v1)"

fun mat_mul :: "matrix2 \<Rightarrow> matrix2 \<Rightarrow> matrix2" where
  "mat_mul ((a00, a01), (a10, a11)) ((b00, b01), (b10, b11)) =
     ((a00 * b00 + a01 * b10, a00 * b01 + a01 * b11),
      (a10 * b00 + a11 * b10, a10 * b01 + a11 * b11))"

definition scale_vec :: "complex \<Rightarrow> qstate \<Rightarrow> qstate" where
  "scale_vec l v = (case v of (v0, v1) \<Rightarrow> (l * v0, l * v1))"

text \<open>The initial state of the qubit.\<close>

definition ket0 :: qstate where
  "ket0 = (1, 0)"

text \<open>The state on which the measurement of a circuit acts.\<close>

fun state_before_measure :: "circuit \<Rightarrow> qstate \<Rightarrow> qstate" where
  "state_before_measure [] st = st"
| "state_before_measure (Measure # rest) st = st"
| "state_before_measure (Apply g # rest) st =
     state_before_measure rest (mat_vec (gate_matrix g) st)"

text \<open>The matrix of a sequence of gates: a later gate multiplies from the left.\<close>

fun gates_unitary :: "gate list \<Rightarrow> matrix2" where
  "gates_unitary [] = ((1, 0), (0, 1))"
| "gates_unitary (g # gs) = mat_mul (gates_unitary gs) (gate_matrix g)"

text \<open>The adjoint of S, the Pauli matrix Y and its two normalised eigenvectors.\<close>

definition sdg_matrix :: matrix2 where
  "sdg_matrix = ((1, 0), (0, - \<i>))"

definition pauli_y :: matrix2 where
  "pauli_y = ((0, - \<i>), (\<i>, 0))"

definition y_plus :: qstate where
  "y_plus = (of_real (1 / sqrt 2), \<i> * of_real (1 / sqrt 2))"

definition y_minus :: qstate where
  "y_minus = (of_real (1 / sqrt 2), - \<i> * of_real (1 / sqrt 2))"

subsection \<open>numpy arithmetic\<close>

text \<open>
  A numpy double is a finite value, an infinity or nan. A division of doubles by
  zero raises nothing (numpy warns and goes on): it yields nan for \<open>0 / 0\<close> and an
  infinity otherwise. Products and sums propagate these values as IEEE 754 does.
\<close>

datatype npfloat = Finite real | PosInf | NegInf | NaN

text \<open>\<^verbatim>\<open>np.linalg.norm\<close> of a vector of three finite components.\<close>

definition linalg_norm :: "real \<times> real \<times> real \<Rightarrow> real" where
  "linalg_norm v = (case v of (v0, v1, v2) \<Rightarrow> sqrt (v0\<^sup>2 + v1\<^sup>2 + v2\<^sup>2))"

definition np_true_divide :: "real \<Rightarrow> real \<Rightarrow> npfloat" where
  "np_true_divide x d =
     (if d \<noteq> 0 then Finite (x / d)
      else if x = 0 then NaN
      else if 0 < x then PosInf else NegInf)"

text \<open>An array divided by a scalar: component by component.\<close>

definition np_divide_vec :: "real \<times> real \<times> real \<Rightarrow> real \<Rightarrow> npfloat \<times> npfloat \<times> npfloat" where
  "np_divide_vec v d =
     (case v of (v0, v1, v2) \<Rightarrow>
        (np_true_divide v0 d, np_true_divide v1 d, np_true_divide v2 d))"

fun np_times :: "real \<Rightarrow> npfloat \<Rightarrow> npfloat" where
  "np_times k (Finite x) = Finite (k * x)"
| "np_times k NaN = NaN"
| "np_times k PosInf = (if k = 0 then NaN else if 0 < k then PosInf else NegInf)"
| "np_times k NegInf = (if k = 0 then NaN else if 0 < k then NegInf else PosInf)"

text \<open>\<^verbatim>\<open>np.multiply\<close> of the three finite coefficients with an array.\<close>

definition np_multiply ::
  "real \<times> real \<times> real \<Rightarrow> npfloat \<times> npfloat \<times> npfloat \<Rightarrow> npfloat \<times> npfloat \<times> npfloat" where
  "np_multiply ks v =
     (case ks of (k0, k1, k2) \<Rightarrow> case v of (v0, v1, v2) \<Rightarrow>
        (np_times k0 v0, np_times k1 v1, np_times k2 v2))"

fun np_add :: "npfloat \<Rightarrow> npfloat \<Rightarrow> npfloat" where
  "np_add (Finite x) (Finite y) = Finite (x + y)"
| "np_add NaN _ = NaN"
| "np_add _ NaN = NaN"
| "np_add PosInf NegInf = NaN"
| "np_add NegInf PosInf = NaN"
| "np_add PosInf _ = PosInf"
| "np_add _ PosInf = PosInf"
| "np_add NegInf _ = NegInf"
| "np_add _ NegInf = NegInf"

text \<open>Python's \<^verbatim>\<open>sum\<close> over the array: it starts from 0 and adds from the left.\<close>

definition py_sum :: "npfloat \<times> npfloat \<times> npfloat \<Rightarrow> npfloat" where
  "py_sum v = (case v of (v0, v1, v2) \<Rightarrow> np_add (np_add (np_add (Finite 0) v0) v1) v2)"

subsection \<open>The energy objective\<close>

text \<open>
  \<^verbatim>\<open>execute(qc, backend, shots=NUM_SHOTS).result().get_counts()\<close> runs one
  measurement simulation. The simulator is a parameter: it maps the circuit, the
  number of shots and its own hidden state (the random source) to the counts and the
  next state, so that every run shows in the state.
\<close>

type_synonym 's backend = "circuit \<Rightarrow> int \<Rightarrow> 's \<Rightarrow> counts \<times> 's"

text \<open>
  \<^verbatim>\<open>
  def ham_exp_val(params,ham_coef):
      qc_z = get_var_form(params,'z')
      result_z = execute(qc_z, backend, shots=NUM_SHOTS).result()
      counts_z = result_z.get_counts()
      qc_x = get_var_form(params,'x')
      result_x = execute(qc_x, backend, shots=NUM_SHOTS).result()
      counts_x = result_x.get_counts()
      qc_y = get_var_form(params,'y')
      result_y = execute(qc_y, backend, shots=NUM_SHOTS).result()
      counts_y = result_y.get_counts()
      exp_val_vec = np.array([exp_from_counts(counts_z) , exp_from_counts(counts_x),
                              exp_from_counts(counts_y)])
      exp_val_vec = exp_val_vec/np.linalg.norm(exp_val_vec)
      ham_vec = np.multiply(ham_coef,exp_val_vec)
      exp_val = sum(ham_vec)
      return exp_val
  \<close>
  The coefficients \<^verbatim>\<open>ham_coef\<close> are the triple \<open>(a, b, c)\<close> of \<open>H = aZ + bX + cY\<close>.
  The result is paired with the simulator's state after the call; the printing
  under \<^verbatim>\<open>verbose\<close> has no effect on either.
\<close>

definition ham_exp_val ::
  "'s backend \<Rightarrow> int \<Rightarrow> real list \<Rightarrow> real \<times> real \<times> real \<Rightarrow> 's \<Rightarrow> (error + npfloat) \<times> 's" where
  "ham_exp_val backend num_shots params ham_coef s0 =
     (case get_var_form params ''z'' of Inl e \<Rightarrow> (Inl e, s0) | Inr qc_z \<Rightarrow>
      case backend qc_z num_shots s0 of (counts_z, s1) \<Rightarrow>
      case get_var_form params ''x'' of Inl e \<Rightarrow> (Inl e, s1) | Inr qc_x \<Rightarrow>
      case backend qc_x num_shots s1 of (counts_x, s2) \<Rightarrow>
      case get_var_form params ''y'' of Inl e \<Rightarrow> (Inl e, s2) | Inr qc_y \<Rightarrow>
      case backend qc_y num_shots s2 of (counts_y, s3) \<Rightarrow>
      (bind_err (exp_from_counts num_shots counts_z) (\<lambda>vz.
       bind_err (exp_from_counts num_shots counts_x) (\<lambda>vx.
       bind_err (exp_from_counts num_shots counts_y) (\<lambda>vy.
         let exp_val_vec = (vz, vx, vy);
             exp_val_vec = np_divide_vec exp_val_vec (linalg_norm exp_val_vec);
             ham_vec = np_multiply ham_coef exp_val_vec
         in Inr (py_sum ham_vec)))), s3))"

text \<open>
  A simulator for concrete runs: it replays a list of prepared counts, one per
  simulation, and its state is what is left of the list.
\<close>

fun scripted_backend :: "counts list backend" where
  "scripted_backend qc shots [] = (Map.empty, [])"
| "scripted_backend qc shots (c # cs) = (c, cs)"

subsection \<open>The exact check\<close>

text \<open>
  \<^verbatim>\<open>
  ham_matrix = np.array([ [ham_coef[0], ham_coef[1] - 1.j*ham_coef[2]] ,
                          [ham_coef[1]+ 1.j*ham_coef[2], -1.*ham_coef[0]] ])
  print('< H > exact = %2.3f' % min(np.linalg.eig(ham_matrix)[0]))
  \<close>
\<close>

definition ham_matrix :: "real \<times> real \<times> real \<Rightarrow> matrix2" where
  "ham_matrix ham_coef =
     (case ham_coef of (a, b, c) \<Rightarrow>
        ((of_real a, of_real b - \<i> * of_real c),
         (of_real b + \<i> * of_real c, - 1 * of_real a)))"

text \<open>What an eigenvalue is: some non-zero vector is scaled by it.\<close>

definition is_eigenvalue :: "matrix2 \<Rightarrow> complex \<Rightarrow> bool" where
  "is_eigenvalue m l = (\<exists>v. v \<noteq> (0, 0) \<and> mat_vec m v = scale_vec l v)"

definition char_poly :: "matrix2 \<Rightarrow> complex \<Rightarrow> complex" where
  "char_poly m l =
     (case m of ((m00, m01), (m10, m11)) \<Rightarrow> (m00 - l) * (m11 - l) - m01 * m10)"

text \<open>
  \<^verbatim>\<open>np.linalg.eig(m)[0]\<close> on a 2 by 2 matrix: the two roots of the characteristic
  polynomial, in exact arithmetic (\<open>linalg_eigvals_complete\<close> below shows that
  they are the eigenvalues, and all of them). The library promises no order of
  the eigenvalues, and the order it returns depends on the matrix; the order is
  the parameter \<open>swapped\<close>, and the properties hold for both of its values.
\<close>

definition linalg_eigvals :: "bool \<Rightarrow> matrix2 \<Rightarrow> complex \<times> complex" where
  "linalg_eigvals swapped m =
     (case m of ((m00, m01), (m10, m11)) \<Rightarrow>
        let tr = m00 + m11;
            dt = m00 * m11 - m01 * m10;
            rt = csqrt (tr\<^sup>2 - 4 * dt)
        in if swapped then ((tr - rt) / 2, (tr + rt) / 2)
           else ((tr + rt) / 2, (tr - rt) / 2))"

text \<open>numpy orders complex scalars by real part, then by imaginary part.\<close>

definition np_less :: "complex \<Rightarrow> complex \<Rightarrow> bool" where
  "np_less z w = (Re z < Re w \<or> (Re z = Re w \<and> Im z < Im w))"

text \<open>Python's \<^verbatim>\<open>min\<close> over the two eigenvalues: the first of the smallest.\<close>

definition py_min :: "complex \<times> complex \<Rightarrow> complex" where
  "py_min w = (case w of (w0, w1) \<Rightarrow> if np_less w1 w0 then w1 else w0)"

text \<open>
  The value printed as the exact energy, \<^verbatim>\<open>min(np.linalg.eig(ham_matrix)[0])\<close>, for
  either order of the library's eigenvalues.
\<close>

definition exact_energy :: "bool \<Rightarrow> real \<times> real \<times> real \<Rightarrow> complex" where
  "exact_energy swapped ham_coef = py_min (linalg_eigvals swapped (ham_matrix ham_coef))"

section \<open>Properties\<close>

subsection \<open>The estimator\<close>

lemma exp_from_counts_absent0:
  "cnts ''0'' = None \<Longrightarrow> cnts ''1'' = Some c1 \<Longrightarrow> n \<noteq> 0 \<Longrightarrow>
   exp_from_counts n cnts = Inr (- real_of_int c1 / real_of_int n)"
  by (simp add: exp_from_counts_def has_key_def getitem_def bind_err_def true_div_def)

lemma exp_from_counts_absent1:
  "cnts ''0'' = Some c0 \<Longrightarrow> cnts ''1'' = None \<Longrightarrow> n \<noteq> 0 \<Longrightarrow>
   exp_from_counts n cnts = Inr (real_of_int c0 / real_of_int n)"
  by (simp add: exp_from_counts_def has_key_def getitem_def bind_err_def true_div_def)

lemma exp_from_counts_both:
  "cnts ''0'' = Some c0 \<Longrightarrow> cnts ''1'' = Some c1 \<Longrightarrow> n \<noteq> 0 \<Longrightarrow>
   exp_from_counts n cnts = Inr ((real_of_int c0 - real_of_int c1) / real_of_int n)"
  by (simp add: exp_from_counts_def has_key_def getitem_def bind_err_def true_div_def)

lemma exp_from_counts_none:
  "cnts ''0'' = None \<Longrightarrow> cnts ''1'' = None \<Longrightarrow>
   exp_from_counts n cnts = Inl (KeyError ''1'')"
  by (simp add: exp_from_counts_def has_key_def getitem_def bind_err_def)

text \<open>
  Claim C9. A counts mapping that holds at least one of the keys \<^verbatim>\<open>'0'\<close> and
  \<^verbatim>\<open>'1'\<close> is evaluated without a failing key lookup, whichever of the two keys is
  absent: \<open>exp_from_counts\<close> never returns a \<open>KeyError\<close> on it.
\<close>

theorem exp_from_counts_no_KeyError:
  assumes "has_key cnts ''0'' \<or> has_key cnts ''1''"
  shows "exp_from_counts n cnts \<noteq> Inl (KeyError k)"
  using assms
  by (auto simp: exp_from_counts_def has_key_def getitem_def bind_err_def true_div_def
           split: if_splits)

theorem exp_from_counts_no_KeyError_witness:
  "has_key [''1'' \<mapsto> 10000] ''1'' \<and>
   exp_from_counts NUM_SHOTS [''1'' \<mapsto> 10000] \<noteq> Inl (KeyError ''0'') \<and>
   exp_from_counts NUM_SHOTS [''1'' \<mapsto> 10000] \<noteq> Inl (KeyError ''1'')"
  using exp_from_counts_no_KeyError [of "[''1'' \<mapsto> 10000]" NUM_SHOTS "''0''"]
        exp_from_counts_no_KeyError [of "[''1'' \<mapsto> 10000]" NUM_SHOTS "''1''"]
  by (simp add: has_key_def)

text \<open>
  Claim C1. On every counts mapping whose two counts sum to a positive shot budget,
  the estimator returns exactly \<open>1\<close> when the count of outcome 1 is zero; it returns
  minus the count of outcome 1 over the shots, which is exactly \<open>- 1\<close>, when the
  count of outcome 0 is zero; and it returns the difference of the counts over the
  shots otherwise.
\<close>

theorem exp_from_counts_policy:
  assumes sum: "count_of cnts ''0'' + count_of cnts ''1'' = shots" and pos: "0 < shots"
  shows "(count_of cnts ''1'' = 0 \<longrightarrow> exp_from_counts shots cnts = Inr 1) \<and>
         (count_of cnts ''0'' = 0 \<longrightarrow>
            exp_from_counts shots cnts
              = Inr (- real_of_int (count_of cnts ''1'') / real_of_int shots) \<and>
            exp_from_counts shots cnts = Inr (- 1)) \<and>
         (count_of cnts ''0'' \<noteq> 0 \<and> count_of cnts ''1'' \<noteq> 0 \<longrightarrow>
            exp_from_counts shots cnts
              = Inr ((real_of_int (count_of cnts ''0'') - real_of_int (count_of cnts ''1''))
                     / real_of_int shots))"
proof (cases "cnts ''0''")
  case None
  then have c0: "count_of cnts ''0'' = 0" by (simp add: count_of_def)
  with sum pos obtain c1 where c1: "cnts ''1'' = Some c1" "c1 = shots"
    by (cases "cnts ''1''") (auto simp: count_of_def)
  from exp_from_counts_absent0 [OF None c1(1)] pos c1 c0 show ?thesis
    by (simp add: count_of_def)
next
  case (Some c0)
  show ?thesis
  proof (cases "cnts ''1''")
    case None
    with Some sum pos have "c0 = shots" by (simp add: count_of_def)
    with exp_from_counts_absent1 [OF Some None] pos Some None show ?thesis
      by (simp add: count_of_def)
  next
    case (Some c1)
    from exp_from_counts_both [OF \<open>cnts ''0'' = Some c0\<close> Some] pos sum Some \<open>cnts ''0'' = Some c0\<close>
    show ?thesis
      by (auto simp: count_of_def)
  qed
qed

theorem exp_from_counts_policy_witness:
  "exp_from_counts NUM_SHOTS [''0'' \<mapsto> 10000] = Inr 1 \<and>
   exp_from_counts NUM_SHOTS [''0'' \<mapsto> 10000, ''1'' \<mapsto> 0] = Inr 1 \<and>
   exp_from_counts NUM_SHOTS [''1'' \<mapsto> 10000] = Inr (- 1) \<and>
   exp_from_counts NUM_SHOTS [''0'' \<mapsto> 6000, ''1'' \<mapsto> 4000] = Inr (1 / 5)"
  using exp_from_counts_policy [of "[''0'' \<mapsto> 10000]" NUM_SHOTS]
        exp_from_counts_policy [of "[''0'' \<mapsto> 10000, ''1'' \<mapsto> 0]" NUM_SHOTS]
        exp_from_counts_policy [of "[''1'' \<mapsto> 10000]" NUM_SHOTS]
        exp_from_counts_policy [of "[''0'' \<mapsto> 6000, ''1'' \<mapsto> 4000]" NUM_SHOTS]
  by (simp add: count_of_def NUM_SHOTS_def)

text \<open>
  Claim C8. On every OutcomeCounts mapping (non-negative counts with
  count(0) + count(1) = shots and shots positive) the estimator returns a value in
  the closed interval from \<open>- 1\<close> to \<open>1\<close>, whichever branch is taken.
\<close>

theorem exp_from_counts_range:
  assumes oc: "outcome_counts shots cnts" and pos: "0 < shots"
  shows "\<exists>r. exp_from_counts shots cnts = Inr r \<and> - 1 \<le> r \<and> r \<le> 1"
proof -
  define c0 where "c0 = count_of cnts ''0''"
  define c1 where "c1 = count_of cnts ''1''"
  from oc have nn: "0 \<le> c0" "0 \<le> c1" and sum: "c0 + c1 = shots"
    by (simp_all add: outcome_counts_def c0_def c1_def)
  have r1: "- 1 \<le> - real_of_int c1 / real_of_int shots" "- real_of_int c1 / real_of_int shots \<le> 1"
    using nn sum pos by (simp_all add: field_simps)
  have r2: "- 1 \<le> real_of_int c0 / real_of_int shots" "real_of_int c0 / real_of_int shots \<le> 1"
    using nn sum pos by (simp_all add: field_simps)
  have r3: "- 1 \<le> (real_of_int c0 - real_of_int c1) / real_of_int shots"
           "(real_of_int c0 - real_of_int c1) / real_of_int shots \<le> 1"
    using nn sum pos by (simp_all add: field_simps)
  show ?thesis
  proof (cases "cnts ''0''")
    case None
    with sum pos obtain k where k: "cnts ''1'' = Some k" "k = c1"
      by (cases "cnts ''1''") (auto simp: count_of_def c0_def c1_def)
    from exp_from_counts_absent0 [OF None k(1)] pos r1 k show ?thesis by simp
  next
    case (Some a)
    then have a: "a = c0" by (simp add: c0_def count_of_def)
    show ?thesis
    proof (cases "cnts ''1''")
      case None
      from exp_from_counts_absent1 [OF Some None] pos r2 a show ?thesis by simp
    next
      case (Some b)
      then have b: "b = c1" by (simp add: c1_def count_of_def)
      from exp_from_counts_both [OF \<open>cnts ''0'' = Some a\<close> Some] pos r3 a b show ?thesis by simp
    qed
  qed
qed

theorem exp_from_counts_range_witness:
  "outcome_counts NUM_SHOTS [''0'' \<mapsto> 2500, ''1'' \<mapsto> 7500] \<and> 0 < NUM_SHOTS \<and>
   (\<exists>r. exp_from_counts NUM_SHOTS [''0'' \<mapsto> 2500, ''1'' \<mapsto> 7500] = Inr r \<and> - 1 \<le> r \<and> r \<le> 1)"
proof -
  have h: "outcome_counts NUM_SHOTS [''0'' \<mapsto> 2500, ''1'' \<mapsto> 7500]"
    by (simp add: outcome_counts_def count_of_def NUM_SHOTS_def)
  have p: "0 < NUM_SHOTS" by (simp add: NUM_SHOTS_def)
  from exp_from_counts_range [OF h p] h p show ?thesis by simp
qed

subsection \<open>The variational circuit\<close>

text \<open>
  The circuit built from an empty parameter vector and from a non-empty one, for
  any basis tag.
\<close>

lemma get_var_form_Nil: "get_var_form [] meas_axis = Inl IndexError"
  by (simp add: get_var_form_def bind_err_def param_at_def)

lemma get_var_form_Cons:
  "get_var_form (p0 # ps) meas_axis =
     Inr (Apply (RYGate p0) # (case ps of [] \<Rightarrow> [] | p1 # _ \<Rightarrow> [Apply (RZGate p1)]) @
          (if meas_axis = ''x'' then [Apply HGate]
           else if meas_axis = ''y'' then [Apply ZGate, Apply SGate, Apply HGate]
           else []) @ [Measure])"
  by (cases ps) (simp_all add: get_var_form_def bind_err_def param_at_def)

lemma ham_exp_val_Nil: "ham_exp_val backend shots [] ham_coef s = (Inl IndexError, s)"
  by (simp add: ham_exp_val_def get_var_form_Nil)

lemma get_var_form_long:
  assumes "2 < length params"
  shows "get_var_form params meas_axis = get_var_form (take 2 params) meas_axis"
    and "\<exists>qc. get_var_form params meas_axis = Inr qc"
proof -
  from assms obtain p0 p1 ps where "params = p0 # p1 # ps"
    by (cases params; cases "tl params") auto
  then show "get_var_form params meas_axis = get_var_form (take 2 params) meas_axis"
    and "\<exists>qc. get_var_form params meas_axis = Inr qc"
    by (simp_all add: get_var_form_Cons)
qed

text \<open>
  Claim C2, as amended. No length of the parameter vector is validated. On the
  empty vector \<open>get_var_form\<close> fails with the IndexError of \<^verbatim>\<open>params[0]\<close>, and
  \<open>ham_exp_val\<close> passes it on before the simulator has run: the simulator's state is
  the initial one, whatever the simulator. On every vector longer than 2 the
  construction succeeds, with the circuit of the first two components.
\<close>

theorem get_var_form_length:
  "get_var_form [] meas_axis = Inl IndexError \<and>
   ham_exp_val backend shots [] ham_coef s = (Inl IndexError, s) \<and>
   (2 < length params \<longrightarrow>
      get_var_form params meas_axis = get_var_form (take 2 params) meas_axis \<and>
      (\<exists>qc. get_var_form params meas_axis = Inr qc))"
proof (intro conjI impI)
  show "get_var_form [] meas_axis = Inl IndexError"
    by (rule get_var_form_Nil)
  show "ham_exp_val backend shots [] ham_coef s = (Inl IndexError, s)"
    by (rule ham_exp_val_Nil)
next
  assume "2 < length params"
  then show "get_var_form params meas_axis = get_var_form (take 2 params) meas_axis"
    by (rule get_var_form_long)
next
  assume "2 < length params"
  then show "\<exists>qc. get_var_form params meas_axis = Inr qc"
    by (rule get_var_form_long)
qed

theorem get_var_form_length_witness:
  "2 < length [1, 2, 3 :: real] \<and>
   get_var_form [1, 2, 3] ''y'' = get_var_form [1, 2] ''y'' \<and>
   get_var_form [] ''y'' = Inl IndexError \<and>
   ham_exp_val scripted_backend NUM_SHOTS [] (1, 2, 1 / 2) [[''0'' \<mapsto> 10000]]
     = (Inl IndexError, [[''0'' \<mapsto> 10000]])"
  using get_var_form_length [of "''y''" scripted_backend NUM_SHOTS "(1, 2, 1 / 2)"
          "[[''0'' \<mapsto> 10000]]" "[1, 2, 3]"]
  by simp

text \<open>
  The claim C2 as stated fails on a vector of length 3: the circuit is built from
  its first two components, and the objective runs its three simulations and
  returns an energy.
\<close>

theorem get_var_form_long_counterexample:
  "2 < length [1, 2, 3 :: real] \<and>
   get_var_form [1, 2, 3] ''z'' = Inr [Apply (RYGate 1), Apply (RZGate 2), Measure] \<and>
   ham_exp_val scripted_backend NUM_SHOTS [1, 2, 3] (1, 2, 1 / 2)
     [[''0'' \<mapsto> 8000, ''1'' \<mapsto> 2000], [''0'' \<mapsto> 9000, ''1'' \<mapsto> 1000],
      [''0'' \<mapsto> 5000, ''1'' \<mapsto> 5000]]
   = (Inr (Finite (11 / 5)), [])"
  by (simp add: ham_exp_val_def get_var_form_Cons bind_err_def NUM_SHOTS_def
        exp_from_counts_def has_key_def getitem_def true_div_def linalg_norm_def
        np_divide_vec_def np_true_divide_def np_multiply_def py_sum_def power2_eq_square)

text \<open>
  Claim C10. For every basis tag other than \<^verbatim>\<open>'x'\<close> and \<^verbatim>\<open>'y'\<close>, not only
  \<^verbatim>\<open>'z'\<close>, \<open>get_var_form\<close> returns what it returns for \<^verbatim>\<open>'z'\<close>; on a non-empty
  parameter vector that is the circuit of the rotations followed by the
  measurement, with no basis-change gate and no error for the tag.
\<close>

theorem get_var_form_unvalidated_axis:
  assumes "meas_axis \<noteq> ''x''" and "meas_axis \<noteq> ''y''"
  shows "get_var_form params meas_axis = get_var_form params ''z'' \<and>
         (params \<noteq> [] \<longrightarrow>
            get_var_form params meas_axis =
              Inr (Apply (RYGate (params ! 0)) #
                   (if 1 < length params then [Apply (RZGate (params ! 1))] else []) @ [Measure]))"
proof (cases params)
  case Nil
  then show ?thesis by (simp add: get_var_form_Nil)
next
  case (Cons p0 ps)
  with assms show ?thesis by (cases ps) (simp_all add: get_var_form_Cons)
qed

theorem get_var_form_unvalidated_axis_witness:
  "''w'' \<noteq> ''x'' \<and> ''w'' \<noteq> ''y'' \<and> [1, 2 :: real] \<noteq> [] \<and>
   get_var_form [1, 2] ''w'' = get_var_form [1, 2] ''z'' \<and>
   get_var_form [1, 2] ''w'' = Inr [Apply (RYGate 1), Apply (RZGate 2), Measure]"
proof -
  have h: "''w'' \<noteq> ''x''" "''w'' \<noteq> ''y''" by simp_all
  from get_var_form_unvalidated_axis [OF h, of "[1, 2]"] h show ?thesis by auto
qed

lemma sqrt2_sq: "complex_of_real (sqrt 2) * complex_of_real (sqrt 2) = 2"
  by (simp flip: of_real_mult)

text \<open>A run of gates acts on a state as the product of their matrices.\<close>

lemma mat_vec_mat_mul: "mat_vec (mat_mul a b) v = mat_vec a (mat_vec b v)"
proof -
  obtain a00 a01 a10 a11 where a: "a = ((a00, a01), (a10, a11))" by (metis surj_pair)
  obtain b00 b01 b10 b11 where b: "b = ((b00, b01), (b10, b11))" by (metis surj_pair)
  obtain v0 v1 where v: "v = (v0, v1)" by (metis surj_pair)
  show ?thesis by (simp add: a b v algebra_simps)
qed

lemma state_before_measure_gates:
  "state_before_measure (map Apply gs @ [Measure]) st = mat_vec (gates_unitary gs) st"
proof (induction gs arbitrary: st)
  case Nil
  show ?case by (cases st) simp
next
  case (Cons g gs)
  then show ?case by (simp add: mat_vec_mat_mul)
qed

lemma state_before_measure_append:
  "state_before_measure (map Apply gs @ rest) st
     = state_before_measure rest (state_before_measure (map Apply gs) st)"
  by (induction gs arbitrary: st) simp_all

text \<open>
  Claim C6. Between the rotations and the measurement the circuit holds no gate
  for the basis Z, one Hadamard for X, and the gates Z, S, Hadamard in this order
  for Y, so that the measurement acts on the trial state itself, on Hadamard
  applied to it, and on the composite of Z, S, Hadamard applied to it. That
  composite is the adjoint of S followed by Hadamard, and it takes the
  eigenvectors of Pauli Y for the eigenvalues 1 and \<open>- 1\<close> to the computational
  basis states of the outcomes 0 and 1.
\<close>

theorem measurement_basis_gates:
  "(let prep = Apply (RYGate p0) # (case ps of [] \<Rightarrow> [] | p1 # _ \<Rightarrow> [Apply (RZGate p1)]);
        trial = state_before_measure prep ket0 in
      get_var_form (p0 # ps) ''z'' = Inr (prep @ [Measure]) \<and>
      get_var_form (p0 # ps) ''x'' = Inr (prep @ [Apply HGate, Measure]) \<and>
      get_var_form (p0 # ps) ''y'' = Inr (prep @ [Apply ZGate, Apply SGate, Apply HGate, Measure]) \<and>
      state_before_measure (prep @ [Measure]) ket0 = trial \<and>
      state_before_measure (prep @ [Apply HGate, Measure]) ket0
        = mat_vec (gate_matrix HGate) trial \<and>
      state_before_measure (prep @ [Apply ZGate, Apply SGate, Apply HGate, Measure]) ket0
        = mat_vec (gates_unitary [ZGate, SGate, HGate]) trial) \<and>
   gates_unitary [ZGate, SGate, HGate] = mat_mul (gate_matrix HGate) sdg_matrix \<and>
   mat_vec pauli_y y_plus = y_plus \<and>
   mat_vec pauli_y y_minus = scale_vec (- 1) y_minus \<and>
   mat_vec (gates_unitary [ZGate, SGate, HGate]) y_plus = (1, 0) \<and>
   mat_vec (gates_unitary [ZGate, SGate, HGate]) y_minus = (0, 1)"
proof -
  define prep where
    "prep = map Apply (RYGate p0 # (case ps of [] \<Rightarrow> [] | p1 # _ \<Rightarrow> [RZGate p1]))"
  have prep: "Apply (RYGate p0) # (case ps of [] \<Rightarrow> [] | p1 # _ \<Rightarrow> [Apply (RZGate p1)]) = prep"
    by (cases ps) (simp_all add: prep_def)
  have circuits: "get_var_form (p0 # ps) ''z'' = Inr (prep @ [Measure])"
    "get_var_form (p0 # ps) ''x'' = Inr (prep @ [Apply HGate, Measure])"
    "get_var_form (p0 # ps) ''y'' = Inr (prep @ [Apply ZGate, Apply SGate, Apply HGate, Measure])"
    by (simp_all add: get_var_form_Cons prep)
  have z: "state_before_measure (prep @ [Measure]) ket0 = state_before_measure prep ket0"
    unfolding prep_def by (subst state_before_measure_append) simp
  have x: "state_before_measure (prep @ [Apply HGate, Measure]) ket0
             = mat_vec (gate_matrix HGate) (state_before_measure prep ket0)"
    unfolding prep_def by (subst state_before_measure_append) simp
  have zsh: "state_before_measure [Apply ZGate, Apply SGate, Apply HGate, Measure] st
               = mat_vec (gates_unitary [ZGate, SGate, HGate]) st" for st
    using state_before_measure_gates [of "[ZGate, SGate, HGate]" st]
    by (simp only: list.map append.simps)
  have y: "state_before_measure (prep @ [Apply ZGate, Apply SGate, Apply HGate, Measure]) ket0
             = mat_vec (gates_unitary [ZGate, SGate, HGate]) (state_before_measure prep ket0)"
    unfolding prep_def by (subst state_before_measure_append) (rule zsh)
  have composite: "gates_unitary [ZGate, SGate, HGate] = mat_mul (gate_matrix HGate) sdg_matrix"
    by (simp add: sdg_matrix_def)
  have eigen: "mat_vec pauli_y y_plus = y_plus" "mat_vec pauli_y y_minus = scale_vec (- 1) y_minus"
    by (simp_all add: pauli_y_def y_plus_def y_minus_def scale_vec_def)
  have rotated: "mat_vec (gates_unitary [ZGate, SGate, HGate]) y_plus = (1, 0)"
    "mat_vec (gates_unitary [ZGate, SGate, HGate]) y_minus = (0, 1)"
    by (simp_all add: y_plus_def y_minus_def sqrt2_sq)
  show ?thesis
    unfolding Let_def prep
    using circuits z x y composite eigen rotated by (intro conjI)
qed

text \<open>
  Claim C4, as amended. The first component of a 2-element parameter vector is the
  Ry angle and the second is the Rz angle: the trial state prepared from
  \<open>(p0, p1)\<close> is \<open>Rz(p1) Ry(p0)\<close> applied to the initial state, and the one
  prepared from a 1-element vector \<open>(p)\<close> is \<open>Ry(p)\<close> applied to it.
\<close>

theorem trial_state_angles:
  "get_var_form [p0, p1] ''z'' = Inr [Apply (RYGate p0), Apply (RZGate p1), Measure] \<and>
   state_before_measure [Apply (RYGate p0), Apply (RZGate p1), Measure] ket0
     = mat_vec (gate_matrix (RZGate p1)) (mat_vec (gate_matrix (RYGate p0)) ket0) \<and>
   state_before_measure [Apply (RYGate p0), Apply (RZGate p1), Measure] ket0
     = (cis (- p1 / 2) * of_real (cos (p0 / 2)), cis (p1 / 2) * of_real (sin (p0 / 2))) \<and>
   get_var_form [p] ''z'' = Inr [Apply (RYGate p), Measure] \<and>
   state_before_measure [Apply (RYGate p), Measure] ket0
     = mat_vec (gate_matrix (RYGate p)) ket0 \<and>
   state_before_measure [Apply (RYGate p), Measure] ket0
     = (of_real (cos (p / 2)), of_real (sin (p / 2)))"
  by (simp add: get_var_form_Cons ket0_def)

text \<open>
  The claim C4 as stated reads the first component as the Rz angle. On the vector
  \<open>(pi, 0)\<close> the circuit prepares the basis state of outcome 1, and not
  \<open>Rz(pi) Ry(0)\<close> applied to the initial state, which is a multiple of the basis
  state of outcome 0.
\<close>

theorem trial_state_counterexample:
  "get_var_form [pi, 0] ''z'' = Inr [Apply (RYGate pi), Apply (RZGate 0), Measure] \<and>
   state_before_measure [Apply (RYGate pi), Apply (RZGate 0), Measure] ket0 = (0, 1) \<and>
   mat_vec (gate_matrix (RZGate pi)) (mat_vec (gate_matrix (RYGate 0)) ket0) = (- \<i>, 0) \<and>
   state_before_measure [Apply (RYGate pi), Apply (RZGate 0), Measure] ket0
     \<noteq> mat_vec (gate_matrix (RZGate pi)) (mat_vec (gate_matrix (RYGate 0)) ket0)"
  by (simp add: get_var_form_Cons ket0_def cis_inverse [symmetric] del: cis_inverse)

subsection \<open>The energy objective\<close>

text \<open>
  The value of the objective once the three circuits are built, the three
  simulations have run and the three estimates exist.
\<close>

lemma ham_exp_val_eval:
  assumes "get_var_form params ''z'' = Inr qc_z" and "backend qc_z shots s0 = (counts_z, s1)"
    and "get_var_form params ''x'' = Inr qc_x" and "backend qc_x shots s1 = (counts_x, s2)"
    and "get_var_form params ''y'' = Inr qc_y" and "backend qc_y shots s2 = (counts_y, s3)"
    and "exp_from_counts shots counts_z = Inr vz"
    and "exp_from_counts shots counts_x = Inr vx"
    and "exp_from_counts shots counts_y = Inr vy"
  shows "ham_exp_val backend shots params ham_coef s0 =
           (Inr (py_sum (np_multiply ham_coef
                   (np_divide_vec (vz, vx, vy) (linalg_norm (vz, vx, vy))))), s3)"
  using assms by (simp add: ham_exp_val_def bind_err_def Let_def)

lemma linalg_norm_eq_0: "linalg_norm (vz, vx, vy) = 0 \<longleftrightarrow> vz = 0 \<and> vx = 0 \<and> vy = 0"
proof -
  have "vz\<^sup>2 + vx\<^sup>2 + vy\<^sup>2 = 0 \<longleftrightarrow> vz = 0 \<and> vx = 0 \<and> vy = 0"
    by (simp add: add_nonneg_eq_0_iff)
  then show ?thesis by (simp add: linalg_norm_def)
qed

text \<open>
  Claim C5. For every parameter vector and coefficients \<open>(a, b, c)\<close>, when the
  vector \<open>v\<close> of the raw estimates for Z, X and Y is not zero, the objective
  returns \<open>a v\<^sub>Z / n + b v\<^sub>X / n + c v\<^sub>Y / n\<close> with \<open>n\<close> the L2 norm of \<open>v\<close>; no test on
  the norm precedes the division, so this is also the value when the norm is 1.
\<close>

theorem ham_exp_val_normalized:
  assumes "get_var_form params ''z'' = Inr qc_z" and "backend qc_z shots s0 = (counts_z, s1)"
    and "get_var_form params ''x'' = Inr qc_x" and "backend qc_x shots s1 = (counts_x, s2)"
    and "get_var_form params ''y'' = Inr qc_y" and "backend qc_y shots s2 = (counts_y, s3)"
    and "exp_from_counts shots counts_z = Inr vz"
    and "exp_from_counts shots counts_x = Inr vx"
    and "exp_from_counts shots counts_y = Inr vy"
    and nz: "(vz, vx, vy) \<noteq> (0, 0, 0)"
  shows "ham_exp_val backend shots params (a, b, c) s0 =
           (Inr (Finite (a * vz / sqrt (vz\<^sup>2 + vx\<^sup>2 + vy\<^sup>2)
                       + b * vx / sqrt (vz\<^sup>2 + vx\<^sup>2 + vy\<^sup>2)
                       + c * vy / sqrt (vz\<^sup>2 + vx\<^sup>2 + vy\<^sup>2))), s3)"
proof -
  from nz have "linalg_norm (vz, vx, vy) \<noteq> 0" by (simp add: linalg_norm_eq_0)
  then have n: "sqrt (vz\<^sup>2 + vx\<^sup>2 + vy\<^sup>2) \<noteq> 0" by (simp add: linalg_norm_def)
  have "py_sum (np_multiply (a, b, c) (np_divide_vec (vz, vx, vy) (linalg_norm (vz, vx, vy))))
        = Finite (a * vz / sqrt (vz\<^sup>2 + vx\<^sup>2 + vy\<^sup>2)
                + b * vx / sqrt (vz\<^sup>2 + vx\<^sup>2 + vy\<^sup>2)
                + c * vy / sqrt (vz\<^sup>2 + vx\<^sup>2 + vy\<^sup>2))"
    using n by (simp add: py_sum_def np_multiply_def np_divide_vec_def np_true_divide_def linalg_norm_def)
  with ham_exp_val_eval [where backend = backend, OF assms(1-9)] show ?thesis by simp
qed

theorem ham_exp_val_normalized_witness:
  "ham_exp_val scripted_backend NUM_SHOTS [0] (1, 2, 1 / 2)
     [[''0'' \<mapsto> 8000, ''1'' \<mapsto> 2000], [''0'' \<mapsto> 9000, ''1'' \<mapsto> 1000],
      [''0'' \<mapsto> 5000, ''1'' \<mapsto> 5000]]
   = (Inr (Finite (11 / 5)), [])"
proof -
  let ?cz = "[''0'' \<mapsto> 8000, ''1'' \<mapsto> 2000] :: counts"
  let ?cx = "[''0'' \<mapsto> 9000, ''1'' \<mapsto> 1000] :: counts"
  let ?cy = "[''0'' \<mapsto> 5000, ''1'' \<mapsto> 5000] :: counts"
  have g: "get_var_form [0] ''z'' = Inr [Apply (RYGate 0), Measure]"
    "get_var_form [0] ''x'' = Inr [Apply (RYGate 0), Apply HGate, Measure]"
    "get_var_form [0] ''y'' = Inr [Apply (RYGate 0), Apply ZGate, Apply SGate, Apply HGate, Measure]"
    by (simp_all add: get_var_form_Cons)
  have b: "scripted_backend [Apply (RYGate 0), Measure] NUM_SHOTS [?cz, ?cx, ?cy] = (?cz, [?cx, ?cy])"
    "scripted_backend [Apply (RYGate 0), Apply HGate, Measure] NUM_SHOTS [?cx, ?cy] = (?cx, [?cy])"
    "scripted_backend [Apply (RYGate 0), Apply ZGate, Apply SGate, Apply HGate, Measure] NUM_SHOTS [?cy]
       = (?cy, [])"
    by simp_all
  have e: "exp_from_counts NUM_SHOTS ?cz = Inr (3 / 5)"
    "exp_from_counts NUM_SHOTS ?cx = Inr (4 / 5)"
    "exp_from_counts NUM_SHOTS ?cy = Inr 0"
    by (simp_all add: exp_from_counts_def has_key_def getitem_def bind_err_def true_div_def
          NUM_SHOTS_def)
  have nz: "(3 / 5, 4 / 5, 0) \<noteq> (0 :: real, 0 :: real, 0 :: real)" by simp
  have n: "sqrt ((3 / 5)\<^sup>2 + (4 / 5)\<^sup>2 + 0\<^sup>2) = 1"
    by (simp add: power2_eq_square)
  from ham_exp_val_normalized [where backend = scripted_backend and a = 1 and b = 2 and c = "1 / 2",
      OF g(1) b(1) g(2) b(2) g(3) b(3) e nz]
  show ?thesis by (simp only: n) simp
qed

text \<open>
  Claim C3, as amended. When the three raw estimates are all zero the division of
  the normalisation is not guarded: the norm is 0, each component of the
  normalised vector is nan, and the call returns nan as the energy for every
  coefficient triple, without raising an exception.
\<close>

theorem ham_exp_val_zero_vector:
  assumes "get_var_form params ''z'' = Inr qc_z" and "backend qc_z shots s0 = (counts_z, s1)"
    and "get_var_form params ''x'' = Inr qc_x" and "backend qc_x shots s1 = (counts_x, s2)"
    and "get_var_form params ''y'' = Inr qc_y" and "backend qc_y shots s2 = (counts_y, s3)"
    and "exp_from_counts shots counts_z = Inr 0"
    and "exp_from_counts shots counts_x = Inr 0"
    and "exp_from_counts shots counts_y = Inr 0"
  shows "linalg_norm (0, 0, 0) = 0 \<and>
         np_divide_vec (0, 0, 0) (linalg_norm (0, 0, 0)) = (NaN, NaN, NaN) \<and>
         ham_exp_val backend shots params ham_coef s0 = (Inr NaN, s3)"
proof -
  have "py_sum (np_multiply ham_coef (np_divide_vec (0, 0, 0) (linalg_norm (0, 0, 0)))) = NaN"
    by (cases ham_coef)
       (simp add: py_sum_def np_multiply_def np_divide_vec_def np_true_divide_def linalg_norm_def)
  with ham_exp_val_eval [where backend = backend, OF assms] show ?thesis
    by (simp add: np_divide_vec_def np_true_divide_def linalg_norm_def)
qed

theorem ham_exp_val_zero_vector_witness:
  "ham_exp_val scripted_backend NUM_SHOTS [1, 2] (1, 0, 0)
     [[''0'' \<mapsto> 5000, ''1'' \<mapsto> 5000], [''1'' \<mapsto> 5000, ''0'' \<mapsto> 5000],
      [''0'' \<mapsto> 5000, ''1'' \<mapsto> 5000]]
   = (Inr NaN, [])"
proof -
  let ?c = "[''0'' \<mapsto> 5000, ''1'' \<mapsto> 5000] :: counts"
  let ?d = "[''1'' \<mapsto> 5000, ''0'' \<mapsto> 5000] :: counts"
  let ?z = "[Apply (RYGate 1), Apply (RZGate 2), Measure]"
  let ?x = "[Apply (RYGate 1), Apply (RZGate 2), Apply HGate, Measure]"
  let ?y = "[Apply (RYGate 1), Apply (RZGate 2), Apply ZGate, Apply SGate, Apply HGate, Measure]"
  have g: "get_var_form [1, 2] ''z'' = Inr ?z" "get_var_form [1, 2] ''x'' = Inr ?x"
    "get_var_form [1, 2] ''y'' = Inr ?y"
    by (simp_all add: get_var_form_Cons)
  have b: "scripted_backend ?z NUM_SHOTS [?c, ?d, ?c] = (?c, [?d, ?c])"
    "scripted_backend ?x NUM_SHOTS [?d, ?c] = (?d, [?c])"
    "scripted_backend ?y NUM_SHOTS [?c] = (?c, [])"
    by simp_all
  have e: "exp_from_counts NUM_SHOTS ?c = Inr 0" "exp_from_counts NUM_SHOTS ?d = Inr 0"
    "exp_from_counts NUM_SHOTS ?c = Inr 0"
    by (simp_all add: exp_from_counts_def has_key_def getitem_def bind_err_def true_div_def
          NUM_SHOTS_def)
  from ham_exp_val_zero_vector [where backend = scripted_backend and ham_coef = "(1, 0, 0)",
      OF g(1) b(1) g(2) b(2) g(3) b(3) e]
  show ?thesis by simp
qed

text \<open>
  The claim C3 as stated fails when each of the three simulations splits its shots
  evenly: the objective divides by the zero norm and returns nan.
\<close>

theorem ham_exp_val_zero_vector_counterexample:
  "exp_from_counts NUM_SHOTS [''0'' \<mapsto> 5000, ''1'' \<mapsto> 5000] = Inr 0 \<and>
   np_divide_vec (0, 0, 0) (linalg_norm (0, 0, 0)) = (NaN, NaN, NaN) \<and>
   ham_exp_val scripted_backend NUM_SHOTS [0] (1, 2, 1 / 2)
     [[''0'' \<mapsto> 5000, ''1'' \<mapsto> 5000], [''0'' \<mapsto> 5000, ''1'' \<mapsto> 5000],
      [''0'' \<mapsto> 5000, ''1'' \<mapsto> 5000]]
   = (Inr NaN, [])"
  by (simp add: ham_exp_val_def get_var_form_Cons bind_err_def NUM_SHOTS_def exp_from_counts_def
        has_key_def getitem_def true_div_def linalg_norm_def np_divide_vec_def np_true_divide_def
        np_multiply_def py_sum_def)

subsection \<open>The exact check\<close>

text \<open>
  Eigenvalues are the roots of the characteristic polynomial, and
  \<open>linalg_eigvals\<close> returns exactly the eigenvalues of any 2 by 2 matrix.
\<close>

lemma is_eigenvalue_char_poly: "is_eigenvalue m l \<longleftrightarrow> char_poly m l = 0"
proof -
  obtain m00 m01 m10 m11 where m: "m = ((m00, m01), (m10, m11))"
    by (metis surj_pair)
  show ?thesis
  proof
    assume "is_eigenvalue m l"
    then obtain v0 v1 where nz: "v0 \<noteq> 0 \<or> v1 \<noteq> 0"
      and e1: "m00 * v0 + m01 * v1 = l * v0" and e2: "m10 * v0 + m11 * v1 = l * v1"
      by (auto simp: is_eigenvalue_def m scale_vec_def)
    have "((m00 - l) * (m11 - l) - m01 * m10) * v0 = 0"
      using e1 e2 by algebra
    moreover have "((m00 - l) * (m11 - l) - m01 * m10) * v1 = 0"
      using e1 e2 by algebra
    ultimately have "(m00 - l) * (m11 - l) - m01 * m10 = 0"
      using nz by auto
    then show "char_poly m l = 0" by (simp add: char_poly_def m)
  next
    assume "char_poly m l = 0"
    then have cp: "(m00 - l) * (m11 - l) - m01 * m10 = 0" by (simp add: char_poly_def m)
    consider "m01 \<noteq> 0 \<or> l \<noteq> m00" | "m01 = 0" "l = m00" "m10 \<noteq> 0 \<or> l \<noteq> m11"
      | "m01 = 0" "l = m00" "m10 = 0" "l = m11"
      by blast
    then show "is_eigenvalue m l"
    proof cases
      case 1
      have "mat_vec m (m01, l - m00) = scale_vec l (m01, l - m00)"
        using cp by (simp add: m scale_vec_def algebra_simps)
      with 1 show ?thesis unfolding is_eigenvalue_def by (intro exI [of _ "(m01, l - m00)"]) auto
    next
      case 2
      have "mat_vec m (l - m11, m10) = scale_vec l (l - m11, m10)"
        using cp 2(1,2) by (simp add: m scale_vec_def algebra_simps)
      with 2 show ?thesis unfolding is_eigenvalue_def by (intro exI [of _ "(l - m11, m10)"]) auto
    next
      case 3
      have "mat_vec m (1, 0) = scale_vec l (1, 0)"
        using 3 by (simp add: m scale_vec_def)
      then show ?thesis unfolding is_eigenvalue_def by (intro exI [of _ "(1, 0)"]) auto
    qed
  qed
qed

lemma linalg_eigvals_complete:
  "is_eigenvalue m l \<longleftrightarrow>
     l = fst (linalg_eigvals swapped m) \<or> l = snd (linalg_eigvals swapped m)"
proof -
  obtain m00 m01 m10 m11 where m: "m = ((m00, m01), (m10, m11))"
    by (metis surj_pair)
  define rt where "rt = csqrt ((m00 + m11)\<^sup>2 - 4 * (m00 * m11 - m01 * m10))"
  have rt2: "rt\<^sup>2 = (m00 + m11)\<^sup>2 - 4 * (m00 * m11 - m01 * m10)"
    by (simp add: rt_def)
  have "char_poly m l = (l - (m00 + m11 + rt) / 2) * (l - (m00 + m11 - rt) / 2)"
  proof -
    have "(l - (m00 + m11 + rt) / 2) * (l - (m00 + m11 - rt) / 2)
          = l\<^sup>2 - (m00 + m11) * l + ((m00 + m11)\<^sup>2 - rt\<^sup>2) / 4"
      by (simp add: field_simps power2_eq_square)
    also have "\<dots> = l\<^sup>2 - (m00 + m11) * l + (m00 * m11 - m01 * m10)"
      by (simp add: rt2)
    also have "\<dots> = char_poly m l"
      by (simp add: char_poly_def m algebra_simps power2_eq_square)
    finally show ?thesis by simp
  qed
  then have "is_eigenvalue m l \<longleftrightarrow> l = (m00 + m11 + rt) / 2 \<or> l = (m00 + m11 - rt) / 2"
    by (simp add: is_eigenvalue_char_poly)
  then show ?thesis
    by (cases swapped) (auto simp: linalg_eigvals_def m Let_def rt_def)
qed

lemma linalg_eigvals_ham_matrix:
  "linalg_eigvals swapped (ham_matrix (a, b, c))
     = (if swapped
        then (of_real (- sqrt (a\<^sup>2 + b\<^sup>2 + c\<^sup>2)), of_real (sqrt (a\<^sup>2 + b\<^sup>2 + c\<^sup>2)))
        else (of_real (sqrt (a\<^sup>2 + b\<^sup>2 + c\<^sup>2)), of_real (- sqrt (a\<^sup>2 + b\<^sup>2 + c\<^sup>2))))"
proof -
  have d: "(complex_of_real a + - 1 * complex_of_real a)\<^sup>2
             - 4 * (complex_of_real a * (- 1 * complex_of_real a)
                    - (of_real b - \<i> * of_real c) * (of_real b + \<i> * of_real c))
           = of_real (4 * (a\<^sup>2 + b\<^sup>2 + c\<^sup>2))"
    by (simp add: algebra_simps power2_eq_square)
  have nn: "0 \<le> 4 * (a\<^sup>2 + b\<^sup>2 + c\<^sup>2)" by simp
  have s4: "sqrt (4 * x) = 2 * sqrt x" for x :: real
    by (simp add: real_sqrt_mult)
  have "csqrt (of_real (4 * (a\<^sup>2 + b\<^sup>2 + c\<^sup>2))) = of_real (sqrt (4 * (a\<^sup>2 + b\<^sup>2 + c\<^sup>2)))"
    by (rule of_real_sqrt [OF nn, symmetric])
  then have cs: "csqrt (of_real (4 * (a\<^sup>2 + b\<^sup>2 + c\<^sup>2))) = of_real (2 * sqrt (a\<^sup>2 + b\<^sup>2 + c\<^sup>2))"
    by (simp only: s4)
  show ?thesis
    unfolding ham_matrix_def linalg_eigvals_def
    apply (simp only: prod.case Let_def d cs)
    apply simp
    done
qed

lemma py_min_plus_minus:
  "0 \<le> s \<Longrightarrow> py_min (complex_of_real s, complex_of_real (- s)) = complex_of_real (- s)"
  by (auto simp: py_min_def np_less_def)

lemma py_min_minus_plus:
  "0 \<le> s \<Longrightarrow> py_min (complex_of_real (- s), complex_of_real s) = complex_of_real (- s)"
  by (auto simp: py_min_def np_less_def)

lemma exact_energy_eq:
  "exact_energy swapped (a, b, c) = of_real (- sqrt (a\<^sup>2 + b\<^sup>2 + c\<^sup>2))"
proof -
  have "0 \<le> a\<^sup>2 + b\<^sup>2 + c\<^sup>2" by simp
  then have nn: "0 \<le> sqrt (a\<^sup>2 + b\<^sup>2 + c\<^sup>2)" by (simp only: real_sqrt_ge_zero)
  show ?thesis
  proof (cases swapped)
    case True
    then have "exact_energy swapped (a, b, c)
        = py_min (of_real (- sqrt (a\<^sup>2 + b\<^sup>2 + c\<^sup>2)), of_real (sqrt (a\<^sup>2 + b\<^sup>2 + c\<^sup>2)))"
      by (simp only: exact_energy_def linalg_eigvals_ham_matrix if_True)
    with py_min_minus_plus [OF nn] show ?thesis by simp
  next
    case False
    then have "exact_energy swapped (a, b, c)
        = py_min (of_real (sqrt (a\<^sup>2 + b\<^sup>2 + c\<^sup>2)), of_real (- sqrt (a\<^sup>2 + b\<^sup>2 + c\<^sup>2)))"
      by (simp only: exact_energy_def linalg_eigvals_ham_matrix if_False)
    with py_min_plus_minus [OF nn] show ?thesis by simp
  qed
qed

lemma is_eigenvalue_ham_matrix:
  "is_eigenvalue (ham_matrix (a, b, c)) l \<longleftrightarrow>
     l = of_real (sqrt (a\<^sup>2 + b\<^sup>2 + c\<^sup>2)) \<or> l = of_real (- sqrt (a\<^sup>2 + b\<^sup>2 + c\<^sup>2))"
  by (simp only: linalg_eigvals_complete [where swapped = False] linalg_eigvals_ham_matrix
        if_False fst_conv snd_conv)

lemma char_poly_ham_matrix:
  "char_poly (ham_matrix (a, b, c)) l = l\<^sup>2 - of_real (a\<^sup>2 + b\<^sup>2 + c\<^sup>2)"
  by (simp add: char_poly_def ham_matrix_def algebra_simps power2_eq_square)

text \<open>
  Claim C7. For all real coefficients \<open>(a, b, c)\<close> the matrix built is the
  Hermitian matrix with rows \<open>(a, b - \<i>c)\<close> and \<open>(b + \<i>c, - a)\<close>, and the value
  computed from it, a function of the coefficients alone, is its least eigenvalue,
  \<open>- sqrt (a\<^sup>2 + b\<^sup>2 + c\<^sup>2)\<close>, in whichever order the library returns the two
  eigenvalues \<open>sqrt (a\<^sup>2 + b\<^sup>2 + c\<^sup>2)\<close> and \<open>- sqrt (a\<^sup>2 + b\<^sup>2 + c\<^sup>2)\<close>: the value is an
  eigenvalue, and every eigenvalue is real and not below it. For the coefficients
  \<open>(1, 2, 0.5)\<close> it is \<open>- sqrt 5.25\<close>.
\<close>

theorem exact_energy_min_eigenvalue:
  "ham_matrix (a, b, c)
     = ((of_real a, of_real b - \<i> * of_real c), (of_real b + \<i> * of_real c, - of_real a)) \<and>
   linalg_eigvals False (ham_matrix (a, b, c))
     = (of_real (sqrt (a\<^sup>2 + b\<^sup>2 + c\<^sup>2)), of_real (- sqrt (a\<^sup>2 + b\<^sup>2 + c\<^sup>2))) \<and>
   linalg_eigvals True (ham_matrix (a, b, c))
     = (of_real (- sqrt (a\<^sup>2 + b\<^sup>2 + c\<^sup>2)), of_real (sqrt (a\<^sup>2 + b\<^sup>2 + c\<^sup>2))) \<and>
   exact_energy swapped (a, b, c) = of_real (- sqrt (a\<^sup>2 + b\<^sup>2 + c\<^sup>2)) \<and>
   is_eigenvalue (ham_matrix (a, b, c)) (exact_energy swapped (a, b, c)) \<and>
   (\<forall>l. is_eigenvalue (ham_matrix (a, b, c)) l \<longrightarrow>
          Im l = 0 \<and> Re (exact_energy swapped (a, b, c)) \<le> Re l) \<and>
   exact_energy swapped (1, 2, 1 / 2) = of_real (- sqrt 5.25)"
proof (intro conjI allI impI)
  show "ham_matrix (a, b, c)
     = ((of_real a, of_real b - \<i> * of_real c), (of_real b + \<i> * of_real c, - of_real a))"
    by (simp add: ham_matrix_def)
  show "linalg_eigvals False (ham_matrix (a, b, c))
     = (of_real (sqrt (a\<^sup>2 + b\<^sup>2 + c\<^sup>2)), of_real (- sqrt (a\<^sup>2 + b\<^sup>2 + c\<^sup>2)))"
    by (simp only: linalg_eigvals_ham_matrix if_False)
  show "linalg_eigvals True (ham_matrix (a, b, c))
     = (of_real (- sqrt (a\<^sup>2 + b\<^sup>2 + c\<^sup>2)), of_real (sqrt (a\<^sup>2 + b\<^sup>2 + c\<^sup>2)))"
    by (simp only: linalg_eigvals_ham_matrix if_True)
  show "exact_energy swapped (a, b, c) = of_real (- sqrt (a\<^sup>2 + b\<^sup>2 + c\<^sup>2))"
    by (rule exact_energy_eq)
  show "is_eigenvalue (ham_matrix (a, b, c)) (exact_energy swapped (a, b, c))"
    by (simp only: is_eigenvalue_ham_matrix exact_energy_eq) simp
  have "(1::real)\<^sup>2 + 2\<^sup>2 + (1 / 2)\<^sup>2 = 5.25" by (simp add: power2_eq_square)
  then show "exact_energy swapped (1, 2, 1 / 2) = of_real (- sqrt 5.25)"
    by (simp only: exact_energy_eq)
next
  fix l assume "is_eigenvalue (ham_matrix (a, b, c)) l"
  then have l: "l = of_real (sqrt (a\<^sup>2 + b\<^sup>2 + c\<^sup>2)) \<or> l = of_real (- sqrt (a\<^sup>2 + b\<^sup>2 + c\<^sup>2))"
    by (simp only: is_eigenvalue_ham_matrix)
  have "0 \<le> a\<^sup>2 + b\<^sup>2 + c\<^sup>2" by simp
  then have nn: "0 \<le> sqrt (a\<^sup>2 + b\<^sup>2 + c\<^sup>2)" by simp
  from l show "Im l = 0" by auto
  from l nn show "Re (exact_energy swapped (a, b, c)) \<le> Re l"
    by (auto simp: exact_energy_eq)
qed

theorem exact_energy_min_eigenvalue_witness:
  "is_eigenvalue (ham_matrix (1, 2, 1 / 2)) (of_real (sqrt 5.25)) \<and>
   Re (exact_energy True (1, 2, 1 / 2)) \<le> sqrt 5.25 \<and>
   exact_energy True (1, 2, 1 / 2) = of_real (- sqrt 5.25) \<and>
   exact_energy False (1, 2, 1 / 2) = of_real (- sqrt 5.25) \<and>
   linalg_eigvals True (ham_matrix (- 1, 0, 0)) = (- 1, 1) \<and>
   exact_energy True (- 1, 0, 0) = - 1 \<and>
   linalg_eigvals False (ham_matrix (- 1, 0, 0)) = (1, - 1) \<and>
   exact_energy False (- 1, 0, 0) = - 1"
proof -
  have e: "(1::real)\<^sup>2 + 2\<^sup>2 + (1 / 2)\<^sup>2 = 5.25"
    by (simp add: power2_eq_square)
  have "char_poly (ham_matrix (1, 2, 1 / 2)) (of_real (sqrt 5.25))
          = (complex_of_real (sqrt 5.25))\<^sup>2 - of_real 5.25"
    by (simp only: char_poly_ham_matrix e)
  also have "\<dots> = of_real ((sqrt 5.25)\<^sup>2 - 5.25)"
    by (simp only: of_real_diff of_real_power)
  also have "\<dots> = 0"
    by simp
  finally have h: "is_eigenvalue (ham_matrix (1, 2, 1 / 2)) (of_real (sqrt 5.25))"
    by (simp only: is_eigenvalue_char_poly)
  from exact_energy_min_eigenvalue [of 1 2 "1 / 2" True] h
  have t: "Re (exact_energy True (1, 2, 1 / 2)) \<le> Re (complex_of_real (sqrt 5.25))"
    "exact_energy True (1, 2, 1 / 2) = of_real (- sqrt 5.25)"
    by blast+
  from exact_energy_min_eigenvalue [of 1 2 "1 / 2" False]
  have f: "exact_energy False (1, 2, 1 / 2) = of_real (- sqrt 5.25)"
    by blast
  have one: "sqrt ((- 1)\<^sup>2 + 0\<^sup>2 + 0\<^sup>2) = 1"
    by simp
  from exact_energy_min_eigenvalue [of "- 1" 0 0 True]
  have "linalg_eigvals True (ham_matrix (- 1, 0, 0))
          = (of_real (- sqrt ((- 1)\<^sup>2 + 0\<^sup>2 + 0\<^sup>2)), of_real (sqrt ((- 1)\<^sup>2 + 0\<^sup>2 + 0\<^sup>2)))"
    and "exact_energy True (- 1, 0, 0) = of_real (- sqrt ((- 1)\<^sup>2 + 0\<^sup>2 + 0\<^sup>2))"
    and "linalg_eigvals False (ham_matrix (- 1, 0, 0))
          = (of_real (sqrt ((- 1)\<^sup>2 + 0\<^sup>2 + 0\<^sup>2)), of_real (- sqrt ((- 1)\<^sup>2 + 0\<^sup>2 + 0\<^sup>2)))"
    by blast+
  then have m: "linalg_eigvals True (ham_matrix (- 1, 0, 0)) = (- 1, 1)"
    "exact_energy True (- 1, 0, 0) = - 1"
    "linalg_eigvals False (ham_matrix (- 1, 0, 0)) = (1, - 1)"
    by (simp_all only: one) simp_all
  from exact_energy_min_eigenvalue [of "- 1" 0 0 False]
  have "exact_energy False (- 1, 0, 0) = of_real (- sqrt ((- 1)\<^sup>2 + 0\<^sup>2 + 0\<^sup>2))"
    by blast
  then have n: "exact_energy False (- 1, 0, 0) = - 1"
    by (simp only: one) simp
  from h t f m n show ?thesis by simp
qed

end
